theory Spec2Isabelle
  imports Main
begin

section \<open>Python values\<close>

text \<open>
  The handler \<^verbatim>\<open>process_gcs_event\<close> of \<^verbatim>\<open>main.py\<close> receives whatever
  \<^verbatim>\<open>cloud_event.get_data()\<close> returns, so the model starts with the Python values the
  handler can meet. A \<^verbatim>\<open>str\<close> is a list of Unicode code points, a \<^verbatim>\<open>bytes\<close> object
  is a list of 8-bit characters. A \<^verbatim>\<open>float\<close> is named by its \<^verbatim>\<open>repr\<close> text (the
  \<^verbatim>\<open>repr\<close> of a float determines it). A \<^verbatim>\<open>dict\<close> is an association list in insertion
  order, looked up from the front. \<open>PObject\<close> stands for an object of any other class
  (a set, a user-defined class) and carries its truth value.
\<close>

type_synonym pystr = "nat list"
type_synonym pybytes = "string"

datatype pykey =
    KStr pystr
  | KInt int
  | KFloat string
  | KBool bool
  | KNone
  | KBytes pybytes

datatype pyval =
    PNone
  | PBool bool
  | PInt int
  | PFloat string
  | PStr pystr
  | PBytes pybytes
  | PList "pyval list"
  | PDict "(pykey \<times> pyval) list"
  | PObject bool

definition ascii :: "string \<Rightarrow> pystr" where
  "ascii s = map of_char s"

text \<open>Python's truth value testing, as used by \<^verbatim>\<open>if not data\<close>.\<close>

fun truthy :: "pyval \<Rightarrow> bool" where
  "truthy PNone = False"
| "truthy (PBool b) = b"
| "truthy (PInt i) = (i \<noteq> 0)"
| "truthy (PFloat r) = (r \<noteq> ''0.0'' \<and> r \<noteq> ''-0.0'')"
| "truthy (PStr s) = (s \<noteq> [])"
| "truthy (PBytes b) = (b \<noteq> [])"
| "truthy (PList xs) = (xs \<noteq> [])"
| "truthy (PDict kvs) = (kvs \<noteq> [])"
| "truthy (PObject b) = b"

datatype exn =
    JSONDecodeError
  | UnicodeDecodeError
  | UnicodeEncodeError
  | TypeError
  | AttributeError
  | PublishFailure string

text \<open>\<^verbatim>\<open>isinstance(data, dict)\<close> and \<^verbatim>\<open>isinstance(data, bytes)\<close>.\<close>

fun is_dict :: "pyval \<Rightarrow> bool" where
  "is_dict (PDict kvs) = True"
| "is_dict v = False"

fun is_bytes :: "pyval \<Rightarrow> bool" where
  "is_bytes (PBytes b) = True"
| "is_bytes v = False"

text \<open>
  \<^verbatim>\<open>payload.get(key)\<close>: the value stored under the key, \<^verbatim>\<open>None\<close> when the key is
  missing, and \<^verbatim>\<open>AttributeError\<close> when the payload is not a dict (a list, a string, a
  number, \<^verbatim>\<open>None\<close> have no \<^verbatim>\<open>get\<close>).
\<close>

definition dict_get :: "(pykey \<times> pyval) list \<Rightarrow> pystr \<Rightarrow> pyval" where
  "dict_get kvs k = (case map_of kvs (KStr k) of None \<Rightarrow> PNone | Some v \<Rightarrow> v)"

fun py_get :: "pyval \<Rightarrow> pystr \<Rightarrow> exn + pyval" where
  "py_get (PDict kvs) k = Inr (dict_get kvs k)"
| "py_get v k = Inl AttributeError"

section \<open>UTF-8\<close>

text \<open>
  \<^verbatim>\<open>bytes.decode('utf-8')\<close> in strict mode: overlong forms, surrogates, code points above
  U+10FFFF, stray continuation bytes and truncated sequences raise \<^verbatim>\<open>UnicodeDecodeError\<close>.
\<close>

definition is_cont :: "nat \<Rightarrow> bool" where
  "is_cont b = (128 \<le> b \<and> b < 192)"

fun decode_cps :: "nat list \<Rightarrow> pystr option" where
  "decode_cps [] = Some []"
| "decode_cps (b # bs) =
     (if b < 128 then map_option ((#) b) (decode_cps bs)
      else if 194 \<le> b \<and> b < 224 then
        (case bs of
           c1 # r \<Rightarrow>
             if is_cont c1
             then map_option ((#) ((b - 192) * 64 + (c1 - 128))) (decode_cps r)
             else None
         | _ \<Rightarrow> None)
      else if 224 \<le> b \<and> b < 240 then
        (case bs of
           c1 # c2 # r \<Rightarrow>
             (let cp = (b - 224) * 4096 + (c1 - 128) * 64 + (c2 - 128)
              in if is_cont c1 \<and> is_cont c2 \<and> 2048 \<le> cp \<and> \<not> (55296 \<le> cp \<and> cp < 57344)
                 then map_option ((#) cp) (decode_cps r)
                 else None)
         | _ \<Rightarrow> None)
      else if 240 \<le> b \<and> b < 245 then
        (case bs of
           c1 # c2 # c3 # r \<Rightarrow>
             (let cp = (b - 240) * 262144 + (c1 - 128) * 4096 + (c2 - 128) * 64 + (c3 - 128)
              in if is_cont c1 \<and> is_cont c2 \<and> is_cont c3 \<and> 65536 \<le> cp \<and> cp < 1114112
                 then map_option ((#) cp) (decode_cps r)
                 else None)
         | _ \<Rightarrow> None)
      else None)"

definition decode_utf8 :: "pybytes \<Rightarrow> exn + pystr" where
  "decode_utf8 bs =
     (case decode_cps (map of_char bs) of
        None \<Rightarrow> Inl UnicodeDecodeError
      | Some s \<Rightarrow> Inr s)"

text \<open>
  \<^verbatim>\<open>str.encode('utf-8')\<close>: a surrogate code point raises \<^verbatim>\<open>UnicodeEncodeError\<close>.
\<close>

definition byte :: "nat \<Rightarrow> char" where
  "byte n = char_of n"

fun encode_cp :: "nat \<Rightarrow> pybytes option" where
  "encode_cp c =
     (if c < 128 then Some [byte c]
      else if c < 2048 then Some [byte (192 + c div 64), byte (128 + c mod 64)]
      else if 55296 \<le> c \<and> c < 57344 then None
      else if c < 65536 then
        Some [byte (224 + c div 4096), byte (128 + c div 64 mod 64), byte (128 + c mod 64)]
      else if c < 1114112 then
        Some [byte (240 + c div 262144), byte (128 + c div 4096 mod 64),
              byte (128 + c div 64 mod 64), byte (128 + c mod 64)]
      else None)"

fun encode_cps :: "pystr \<Rightarrow> pybytes option" where
  "encode_cps [] = Some []"
| "encode_cps (c # cs) =
     (case encode_cp c of
        None \<Rightarrow> None
      | Some bs \<Rightarrow> map_option ((@) bs) (encode_cps cs))"

definition encode_utf8 :: "pystr \<Rightarrow> exn + pybytes" where
  "encode_utf8 s =
     (case encode_cps s of
        None \<Rightarrow> Inl UnicodeEncodeError
      | Some bs \<Rightarrow> Inr bs)"

section \<open>json.dumps\<close>

text \<open>
  \<^verbatim>\<open>json.dumps\<close> with its default arguments: \<^verbatim>\<open>ensure_ascii=True\<close>,
  \<^verbatim>\<open>allow_nan=True\<close>, \<^verbatim>\<open>skipkeys=False\<close>, separators \<^verbatim>\<open>', '\<close> and \<^verbatim>\<open>': '\<close>.
  A value of a class the encoder does not know (here \<^verbatim>\<open>bytes\<close> and \<open>PObject\<close>), or a
  dict key that is not a str, int, float, bool or \<^verbatim>\<open>None\<close>, raises \<^verbatim>\<open>TypeError\<close>. The
  values of a datatype are finite trees, so the encoder's circular-reference error cannot
  arise; the interpreter's resource limits (recursion depth, memory, the digit limit of
  int conversion) are not part of the model.
\<close>

definition bslash :: char where
  "bslash = CHR 0x5C"

definition dquote :: char where
  "dquote = CHR 0x22"

definition hex_digit :: "nat \<Rightarrow> char" where
  "hex_digit n = ''0123456789abcdef'' ! (n mod 16)"

definition hex4 :: "nat \<Rightarrow> string" where
  "hex4 n = [hex_digit (n div 4096), hex_digit (n div 256), hex_digit (n div 16), hex_digit n]"

definition escape_cp :: "nat \<Rightarrow> string" where
  "escape_cp c =
     (if c = 92 then [bslash, bslash]
      else if c = 34 then [bslash, dquote]
      else if c = 8 then [bslash, CHR ''b'']
      else if c = 12 then [bslash, CHR ''f'']
      else if c = 10 then [bslash, CHR ''n'']
      else if c = 13 then [bslash, CHR ''r'']
      else if c = 9 then [bslash, CHR ''t'']
      else if 32 \<le> c \<and> c < 127 then [char_of c]
      else if c < 65536 then bslash # CHR ''u'' # hex4 c
      else (let n = c - 65536
            in bslash # CHR ''u'' # hex4 (55296 + n div 1024 mod 1024) @
               bslash # CHR ''u'' # hex4 (56320 + n mod 1024)))"

definition encode_basestring_ascii :: "pystr \<Rightarrow> string" where
  "encode_basestring_ascii s = dquote # concat (map escape_cp s) @ [dquote]"

fun nat_repr :: "nat \<Rightarrow> string" where
  "nat_repr n =
     (if n < 10 then [char_of (48 + n)]
      else nat_repr (n div 10) @ [char_of (48 + n mod 10)])"

definition int_repr :: "int \<Rightarrow> string" where
  "int_repr i = (if i < 0 then CHR ''-'' # nat_repr (nat (- i)) else nat_repr (nat i))"

definition floatstr :: "string \<Rightarrow> string" where
  "floatstr r =
     (if r = ''nan'' then ''NaN''
      else if r = ''inf'' then ''Infinity''
      else if r = ''-inf'' then ''-Infinity''
      else r)"

text \<open>The coercion of a dict key to the str that is written.\<close>

fun key_str :: "pykey \<Rightarrow> exn + pystr" where
  "key_str (KStr s) = Inr s"
| "key_str (KFloat r) = Inr (ascii (floatstr r))"
| "key_str (KBool b) = Inr (ascii (if b then ''true'' else ''false''))"
| "key_str KNone = Inr (ascii ''null'')"
| "key_str (KInt i) = Inr (ascii (int_repr i))"
| "key_str (KBytes b) = Inl TypeError"

text \<open>The first element that raises decides the outcome, as in the encoder's loop.\<close>

fun sequence :: "(exn + 'a) list \<Rightarrow> exn + 'a list" where
  "sequence [] = Inr []"
| "sequence (Inl e # rs) = Inl e"
| "sequence (Inr x # rs) = (case sequence rs of Inl e \<Rightarrow> Inl e | Inr xs \<Rightarrow> Inr (x # xs))"

fun join :: "string \<Rightarrow> string list \<Rightarrow> string" where
  "join sep [] = []"
| "join sep [x] = x"
| "join sep (x # y # ys) = x @ sep @ join sep (y # ys)"

definition encode_item :: "pykey \<times> (exn + string) \<Rightarrow> exn + string" where
  "encode_item kr =
     (case key_str (fst kr) of
        Inl e \<Rightarrow> Inl e
      | Inr k \<Rightarrow>
          (case snd kr of
             Inl e \<Rightarrow> Inl e
           | Inr s \<Rightarrow> Inr (encode_basestring_ascii k @ '': '' @ s)))"

primrec encode_val :: "pyval \<Rightarrow> exn + string" where
  "encode_val PNone = Inr ''null''"
| "encode_val (PBool b) = Inr (if b then ''true'' else ''false'')"
| "encode_val (PInt i) = Inr (int_repr i)"
| "encode_val (PFloat r) = Inr (floatstr r)"
| "encode_val (PStr s) = Inr (encode_basestring_ascii s)"
| "encode_val (PBytes b) = Inl TypeError"
| "encode_val (PList xs) =
     (case sequence (map encode_val xs) of
        Inl e \<Rightarrow> Inl e
      | Inr ss \<Rightarrow> Inr (''['' @ join '', '' ss @ '']''))"
| "encode_val (PDict kvs) =
     (case sequence (map encode_item (map (map_prod id encode_val) kvs)) of
        Inl e \<Rightarrow> Inl e
      | Inr ss \<Rightarrow> Inr (''{'' @ join '', '' ss @ ''}''))"
| "encode_val (PObject b) = Inl TypeError"

definition json_dumps :: "pyval \<Rightarrow> exn + pystr" where
  "json_dumps v = (case encode_val v of Inl e \<Rightarrow> Inl e | Inr s \<Rightarrow> Inr (ascii s))"

text \<open>
  What the documentation of \<^verbatim>\<open>json\<close> lists as serializable, stated on the values
  and not through the encoder: \<^verbatim>\<open>None\<close>, bool, int, float, str, a list of serializable
  values, and a dict whose keys are str, int, float, bool or \<^verbatim>\<open>None\<close> and whose values
  are serializable.
\<close>

fun serializable_key :: "pykey \<Rightarrow> bool" where
  "serializable_key (KBytes b) = False"
| "serializable_key k = True"

primrec serializable :: "pyval \<Rightarrow> bool" where
  "serializable PNone = True"
| "serializable (PBool b) = True"
| "serializable (PInt i) = True"
| "serializable (PFloat r) = True"
| "serializable (PStr s) = True"
| "serializable (PBytes b) = False"
| "serializable (PList xs) = list_all (\<lambda>b. b) (map serializable xs)"
| "serializable (PDict kvs) =
     list_all (\<lambda>kb. serializable_key (fst kb) \<and> snd kb) (map (map_prod id serializable) kvs)"
| "serializable (PObject b) = False"

section \<open>json.loads\<close>

text \<open>
  \<^verbatim>\<open>json.loads\<close> on a str, with the default decoder (\<^verbatim>\<open>strict=True\<close>). The text is
  cut into tokens and the tokens are read by a stack machine; both run once over their
  input. Every rejected text raises \<^verbatim>\<open>JSONDecodeError\<close>. A word is a maximal run of
  characters that are neither white space, punctuation nor a double quote: it must be one
  of the literals or a number. The value of a number with a fraction or an exponent is
  Python's \<^verbatim>\<open>float(text)\<close>, which the model takes as the parameter \<open>fl\<close> (from the text
  to the \<^verbatim>\<open>repr\<close> of the float).
\<close>

datatype token =
    TLBrace | TRBrace | TLBracket | TRBracket | TColon | TComma
  | TString pystr
  | TWord pystr

datatype lexmode =
    Idle
  | InWord pystr
  | InStr pystr "nat option"
  | InEsc pystr "nat option"
  | InUni pystr "nat option" "nat list"

definition is_ws :: "nat \<Rightarrow> bool" where
  "is_ws c = (c = 32 \<or> c = 9 \<or> c = 10 \<or> c = 13)"

definition punct :: "nat \<Rightarrow> token option" where
  "punct c =
     (if c = 123 then Some TLBrace
      else if c = 125 then Some TRBrace
      else if c = 91 then Some TLBracket
      else if c = 93 then Some TRBracket
      else if c = 58 then Some TColon
      else if c = 44 then Some TComma
      else None)"

definition hex_val :: "nat \<Rightarrow> nat option" where
  "hex_val c =
     (if 48 \<le> c \<and> c \<le> 57 then Some (c - 48)
      else if 65 \<le> c \<and> c \<le> 70 then Some (c - 55)
      else if 97 \<le> c \<and> c \<le> 102 then Some (c - 87)
      else None)"

text \<open>The one-character escapes after a backslash.\<close>

definition unescape :: "nat \<Rightarrow> nat option" where
  "unescape c =
     (if c = 34 then Some 34
      else if c = 92 then Some 92
      else if c = 47 then Some 47
      else if c = 98 then Some 8
      else if c = 102 then Some 12
      else if c = 110 then Some 10
      else if c = 114 then Some 13
      else if c = 116 then Some 9
      else None)"

definition is_high :: "nat \<Rightarrow> bool" where
  "is_high u = (55296 \<le> u \<and> u < 56320)"

definition is_low :: "nat \<Rightarrow> bool" where
  "is_low u = (56320 \<le> u \<and> u < 57344)"

text \<open>
  One character of the text. Inside a string the second component remembers a high
  surrogate written by the \<^verbatim>\<open>\uXXXX\<close> escape just before: a low surrogate escape that
  follows at once is joined with it into one code point.
\<close>

fun lex_step :: "nat \<Rightarrow> lexmode \<times> token list \<Rightarrow> (lexmode \<times> token list) option" where
  "lex_step c (Idle, ts) =
     (if is_ws c then Some (Idle, ts)
      else if c = 34 then Some (InStr [] None, ts)
      else (case punct c of
              Some t \<Rightarrow> Some (Idle, ts @ [t])
            | None \<Rightarrow> Some (InWord [c], ts)))"
| "lex_step c (InWord w, ts) =
     (if is_ws c then Some (Idle, ts @ [TWord w])
      else if c = 34 then Some (InStr [] None, ts @ [TWord w])
      else (case punct c of
              Some t \<Rightarrow> Some (Idle, ts @ [TWord w, t])
            | None \<Rightarrow> Some (InWord (w @ [c]), ts)))"
| "lex_step c (InStr s hi, ts) =
     (if c = 34 then Some (Idle, ts @ [TString s])
      else if c = 92 then Some (InEsc s hi, ts)
      else if c < 32 then None
      else Some (InStr (s @ [c]) None, ts))"
| "lex_step c (InEsc s hi, ts) =
     (if c = 117 then Some (InUni s hi [], ts)
      else (case unescape c of
              None \<Rightarrow> None
            | Some d \<Rightarrow> Some (InStr (s @ [d]) None, ts)))"
| "lex_step c (InUni s hi ds, ts) =
     (case hex_val c of
        None \<Rightarrow> None
      | Some d \<Rightarrow>
          if length ds < 3 then Some (InUni s hi (ds @ [d]), ts)
          else (let u = foldl (\<lambda>a x. a * 16 + x) 0 (ds @ [d])
                in case hi of
                     Some h \<Rightarrow>
                       if is_low u
                       then Some (InStr (butlast s @ [65536 + (h - 55296) * 1024 + (u - 56320)]) None, ts)
                       else Some (InStr (s @ [u]) (if is_high u then Some u else None), ts)
                   | None \<Rightarrow> Some (InStr (s @ [u]) (if is_high u then Some u else None), ts)))"

fun run :: "('a \<Rightarrow> 's \<Rightarrow> 's option) \<Rightarrow> 'a list \<Rightarrow> 's \<Rightarrow> 's option" where
  "run f [] s = Some s"
| "run f (x # xs) s = (case f x s of None \<Rightarrow> None | Some s' \<Rightarrow> run f xs s')"

definition lex :: "pystr \<Rightarrow> token list option" where
  "lex cs =
     (case run lex_step cs (Idle, []) of
        Some (Idle, ts) \<Rightarrow> Some ts
      | Some (InWord w, ts) \<Rightarrow> Some (ts @ [TWord w])
      | _ \<Rightarrow> None)"

text \<open>
  Numbers: \<^verbatim>\<open>-?(0|[1-9][0-9]*)(\.[0-9]+)?([eE][-+]?[0-9]+)?\<close>. Without fraction and
  exponent the value is an \<^verbatim>\<open>int\<close>.
\<close>

definition is_digit :: "char \<Rightarrow> bool" where
  "is_digit c = (48 \<le> (of_char c :: nat) \<and> (of_char c :: nat) \<le> 57)"

definition digits_val :: "string \<Rightarrow> nat" where
  "digits_val ds = foldl (\<lambda>a c. a * 10 + (of_char c - 48)) 0 ds"

definition frac_ok :: "string \<Rightarrow> bool \<times> string" where
  "frac_ok r =
     (case r of
        [] \<Rightarrow> (True, [])
      | c # r' \<Rightarrow>
          if c = CHR ''.'' then (takeWhile is_digit r' \<noteq> [], dropWhile is_digit r')
          else (True, r))"

definition exp_ok :: "string \<Rightarrow> bool" where
  "exp_ok r =
     (case r of
        [] \<Rightarrow> True
      | c # r' \<Rightarrow>
          (c = CHR ''e'' \<or> c = CHR ''E'') \<and>
          (let ds = (case r' of
                       [] \<Rightarrow> []
                     | s # r'' \<Rightarrow> if s = CHR ''+'' \<or> s = CHR ''-'' then r'' else r')
           in ds \<noteq> [] \<and> list_all is_digit ds))"

definition json_number :: "(string \<Rightarrow> string) \<Rightarrow> string \<Rightarrow> pyval option" where
  "json_number fl t =
     (let neg = (t \<noteq> [] \<and> hd t = CHR ''-'');
          body = (if neg then tl t else t);
          ip = takeWhile is_digit body;
          r1 = dropWhile is_digit body
      in if ip = [] \<or> (hd ip = CHR ''0'' \<and> 1 < length ip) then None
         else if r1 = [] then
           Some (PInt (if neg then - int (digits_val ip) else int (digits_val ip)))
         else if fst (frac_ok r1) \<and> exp_ok (snd (frac_ok r1)) then Some (PFloat (fl t))
         else None)"

definition word_value :: "(string \<Rightarrow> string) \<Rightarrow> pystr \<Rightarrow> pyval option" where
  "word_value fl w =
     (if list_ex (\<lambda>c. 128 \<le> c) w then None
      else (let t = map char_of w
            in if t = ''null'' then Some PNone
               else if t = ''true'' then Some (PBool True)
               else if t = ''false'' then Some (PBool False)
               else (case json_number fl t of
                       Some v \<Rightarrow> Some v
                     | None \<Rightarrow>
                         if t = ''NaN'' then Some (PFloat ''nan'')
                         else if t = ''Infinity'' then Some (PFloat ''inf'')
                         else if t = ''-Infinity'' then Some (PFloat ''-inf'')
                         else None)))"

text \<open>
  An object with a repeated key keeps the key's first position and its last value, as
  \<^verbatim>\<open>dict(pairs)\<close> does.
\<close>

fun dict_set :: "(pykey \<times> pyval) list \<Rightarrow> pykey \<Rightarrow> pyval \<Rightarrow> (pykey \<times> pyval) list" where
  "dict_set [] k v = [(k, v)]"
| "dict_set ((k', v') # kvs) k v =
     (if k' = k then (k, v) # kvs else (k', v') # dict_set kvs k v)"

text \<open>
  The stack holds the containers that are open: an array with its elements so far, an
  object with its items so far, or an object whose next value belongs to a key already
  read. The mode says what may come next.
\<close>

datatype frame =
    FArr "pyval list"
  | FObj "(pykey \<times> pyval) list"
  | FVal "(pykey \<times> pyval) list" pystr

datatype pmode =
    Value
  | ValueOrClose
  | KeyOrClose
  | Key
  | Colon
  | CommaOrClose
  | End pyval

definition complete :: "pyval \<Rightarrow> frame list \<Rightarrow> (pmode \<times> frame list) option" where
  "complete v st =
     (case st of
        [] \<Rightarrow> Some (End v, [])
      | FArr xs # st' \<Rightarrow> Some (CommaOrClose, FArr (xs @ [v]) # st')
      | FVal kvs k # st' \<Rightarrow> Some (CommaOrClose, FObj (dict_set kvs (KStr k) v) # st')
      | FObj kvs # st' \<Rightarrow> None)"

definition start_value :: "(string \<Rightarrow> string) \<Rightarrow> token \<Rightarrow> frame list \<Rightarrow> (pmode \<times> frame list) option" where
  "start_value fl t st =
     (case t of
        TLBracket \<Rightarrow> Some (ValueOrClose, FArr [] # st)
      | TLBrace \<Rightarrow> Some (KeyOrClose, FObj [] # st)
      | TString s \<Rightarrow> complete (PStr s) st
      | TWord w \<Rightarrow> (case word_value fl w of None \<Rightarrow> None | Some v \<Rightarrow> complete v st)
      | _ \<Rightarrow> None)"

definition parse_step :: "(string \<Rightarrow> string) \<Rightarrow> token \<Rightarrow> pmode \<times> frame list \<Rightarrow> (pmode \<times> frame list) option" where
  "parse_step fl t ms =
     (case ms of
        (Value, st) \<Rightarrow> start_value fl t st
      | (ValueOrClose, FArr xs # st) \<Rightarrow>
          if t = TRBracket then complete (PList xs) st else start_value fl t (FArr xs # st)
      | (KeyOrClose, FObj kvs # st) \<Rightarrow>
          (case t of
             TRBrace \<Rightarrow> complete (PDict kvs) st
           | TString k \<Rightarrow> Some (Colon, FVal kvs k # st)
           | _ \<Rightarrow> None)
      | (Key, FObj kvs # st) \<Rightarrow>
          (case t of
             TString k \<Rightarrow> Some (Colon, FVal kvs k # st)
           | _ \<Rightarrow> None)
      | (Colon, st) \<Rightarrow> if t = TColon then Some (Value, st) else None
      | (CommaOrClose, FArr xs # st) \<Rightarrow>
          (case t of
             TComma \<Rightarrow> Some (Value, FArr xs # st)
           | TRBracket \<Rightarrow> complete (PList xs) st
           | _ \<Rightarrow> None)
      | (CommaOrClose, FObj kvs # st) \<Rightarrow>
          (case t of
             TComma \<Rightarrow> Some (Key, FObj kvs # st)
           | TRBrace \<Rightarrow> complete (PDict kvs) st
           | _ \<Rightarrow> None)
      | _ \<Rightarrow> None)"

definition parse :: "(string \<Rightarrow> string) \<Rightarrow> token list \<Rightarrow> pyval option" where
  "parse fl ts =
     (case run (parse_step fl) ts (Value, []) of
        Some (End v, st) \<Rightarrow> Some v
      | _ \<Rightarrow> None)"

definition json_loads :: "(string \<Rightarrow> string) \<Rightarrow> pystr \<Rightarrow> exn + pyval" where
  "json_loads fl s =
     (if s \<noteq> [] \<and> hd s = 65279 then Inl JSONDecodeError
      else (case lex s of
              None \<Rightarrow> Inl JSONDecodeError
            | Some ts \<Rightarrow>
                (case parse fl ts of
                   None \<Rightarrow> Inl JSONDecodeError
                 | Some v \<Rightarrow> Inr v)))"

section \<open>The module and its handler\<close>

text \<open>
  The event carries an attribute mapping and a data payload. Each \<^verbatim>\<open>print\<close> of the
  module is one log line, kept with the values it formats. The world of an invocation is
  the module's globals (\<^verbatim>\<open>PROJECT_ID\<close>, \<^verbatim>\<open>PUBSUB_TOPIC_ID\<close>, \<^verbatim>\<open>publisher\<close>,
  \<^verbatim>\<open>topic_path\<close>), the lines printed so far and the calls of \<^verbatim>\<open>publisher.publish\<close>
  made so far, each with its topic and its message bytes.
\<close>

record cloud_event =
  attributes :: "(string \<times> string) list"
  data :: pyval

datatype log_line =
    LogConfigMissing
  | LogReceived "(string \<times> string) list"
  | LogNoData
  | LogJSONError exn
  | LogRawData pyval
  | LogUnexpected exn
  | LogProcessing pyval
  | LogBucket pyval
  | LogSize pyval
  | LogFormat pyval
  | LogPublished string "string option"
  | LogPublishFailed exn

record world =
  PROJECT_ID :: "string option"
  PUBSUB_TOPIC_ID :: "string option"
  publisher :: nat
  topic_path :: string
  stdout :: "log_line list"
  published :: "(string \<times> pybytes) list"

definition print :: "log_line \<Rightarrow> world \<Rightarrow> world" where
  "print l w = w\<lparr>stdout := stdout w @ [l]\<rparr>"

text \<open>
  The Pub/Sub service is a parameter: \<^verbatim>\<open>publisher.publish\<close> raises or returns a future,
  and \<^verbatim>\<open>future.result()\<close> raises or returns the message id. A failure of either is an
  \<^verbatim>\<open>Exception\<close>.
\<close>

datatype future = Future "exn + string"

type_synonym broker = "string \<Rightarrow> pybytes \<Rightarrow> exn + future"

fun future_result :: "future \<Rightarrow> exn + string" where
  "future_result (Future r) = r"

definition publisher_publish :: "broker \<Rightarrow> string \<Rightarrow> pybytes \<Rightarrow> world \<Rightarrow> (exn + future) \<times> world" where
  "publisher_publish br topic msg w = (br topic msg, w\<lparr>published := published w @ [(topic, msg)]\<rparr>)"

text \<open>
  The module's top level: the two environment variables (\<open>None\<close> when unset), the
  check that prints when one is missing or empty, the client and the topic path
  \<^verbatim>\<open>projects/{project}/topics/{topic}\<close>.
\<close>

definition str_of :: "string option \<Rightarrow> string" where
  "str_of x = (case x of None \<Rightarrow> ''None'' | Some s \<Rightarrow> s)"

definition module_init :: "string option \<Rightarrow> string option \<Rightarrow> nat \<Rightarrow> world" where
  "module_init project topic client =
     \<lparr>PROJECT_ID = project,
      PUBSUB_TOPIC_ID = topic,
      publisher = client,
      topic_path = ''projects/'' @ str_of project @ ''/topics/'' @ str_of topic,
      stdout = (if project = None \<or> project = Some [] \<or> topic = None \<or> topic = Some []
                then [LogConfigMissing] else []),
      published = []\<rparr>"

text \<open>
  The \<^verbatim>\<open>try\<close> block that turns the data into the payload: a dict is taken as it is,
  bytes are decoded as UTF-8 and parsed, a str is parsed, and \<^verbatim>\<open>json.loads\<close> raises
  \<^verbatim>\<open>TypeError\<close> on a value of any other class.
\<close>

fun normalize :: "(string \<Rightarrow> string) \<Rightarrow> pyval \<Rightarrow> exn + pyval" where
  "normalize fl (PDict kvs) = Inr (PDict kvs)"
| "normalize fl (PBytes b) =
     (case decode_utf8 b of
        Inl e \<Rightarrow> Inl e
      | Inr payload_str \<Rightarrow> json_loads fl payload_str)"
| "normalize fl (PStr payload_str) = json_loads fl payload_str"
| "normalize fl v = Inl TypeError"

definition message_payload :: "pyval \<Rightarrow> pyval \<Rightarrow> pyval \<Rightarrow> pyval" where
  "message_payload file_name file_size content_type =
     PDict [(KStr (ascii ''fileName''), file_name),
            (KStr (ascii ''fileSize''), file_size),
            (KStr (ascii ''fileFormat''), content_type)]"

text \<open>
  The last \<^verbatim>\<open>try\<close> block: one call of \<^verbatim>\<open>publisher.publish\<close>, the wait for its
  result, and the handler of \<^verbatim>\<open>Exception\<close> around both.
\<close>

definition publish_step :: "broker \<Rightarrow> pybytes \<Rightarrow> world \<Rightarrow> (exn + unit) \<times> world" where
  "publish_step br message_data w =
     (case publisher_publish br (topic_path w) message_data w of
        (Inl e, w') \<Rightarrow> (Inr (), print (LogPublishFailed e) w')
      | (Inr fut, w') \<Rightarrow>
          (case future_result fut of
             Inl e \<Rightarrow> (Inr (), print (LogPublishFailed e) w')
           | Inr message_id \<Rightarrow> (Inr (), print (LogPublished message_id (PUBSUB_TOPIC_ID w')) w')))"

text \<open>
  Field extraction, the four log lines, the message and its serialization. Nothing here
  is inside a \<^verbatim>\<open>try\<close>: an exception of \<^verbatim>\<open>payload.get\<close>, \<^verbatim>\<open>json.dumps\<close> or
  \<^verbatim>\<open>encode\<close> leaves the handler.
\<close>

definition extract_and_publish :: "broker \<Rightarrow> pyval \<Rightarrow> world \<Rightarrow> (exn + unit) \<times> world" where
  "extract_and_publish br payload w =
     (case py_get payload (ascii ''name'') of
        Inl e \<Rightarrow> (Inl e, w)
      | Inr file_name \<Rightarrow>
     (case py_get payload (ascii ''bucket'') of
        Inl e \<Rightarrow> (Inl e, w)
      | Inr bucket_name \<Rightarrow>
     (case py_get payload (ascii ''size'') of
        Inl e \<Rightarrow> (Inl e, w)
      | Inr file_size \<Rightarrow>
     (case py_get payload (ascii ''contentType'') of
        Inl e \<Rightarrow> (Inl e, w)
      | Inr content_type \<Rightarrow>
          (let w' = print (LogFormat content_type) (print (LogSize file_size)
                      (print (LogBucket bucket_name) (print (LogProcessing file_name) w)))
           in case json_dumps (message_payload file_name file_size content_type) of
                Inl e \<Rightarrow> (Inl e, w')
              | Inr js \<Rightarrow>
                  (case encode_utf8 js of
                     Inl e \<Rightarrow> (Inl e, w')
                   | Inr message_data \<Rightarrow> publish_step br message_data w'))))))"

text \<open>
  The handler. The result is \<open>Inr ()\<close> when it returns and \<open>Inl e\<close> when the exception
  \<open>e\<close> leaves it.
\<close>

definition process_gcs_event :: "(string \<Rightarrow> string) \<Rightarrow> broker \<Rightarrow> cloud_event \<Rightarrow> world \<Rightarrow> (exn + unit) \<times> world" where
  "process_gcs_event fl br ev w =
     (let w1 = print (LogReceived (attributes ev)) w
      in if \<not> truthy (data ev) then (Inr (), print LogNoData w1)
         else (case normalize fl (data ev) of
                 Inl e \<Rightarrow>
                   if e = JSONDecodeError
                   then (Inr (), print (LogRawData (data ev)) (print (LogJSONError e) w1))
                   else (Inr (), print (LogUnexpected e) w1)
               | Inr payload \<Rightarrow> extract_and_publish br payload w1))"

text \<open>Inputs for the examples.\<close>

definition float_text :: "string \<Rightarrow> string" where
  "float_text t = t"

definition acking_broker :: broker where
  "acking_broker topic msg = Inr (Future (Inr ''1''))"


definition timeout_broker :: broker where
  "timeout_broker topic msg = Inr (Future (Inl (PublishFailure ''timeout'')))"

definition world0 :: world where
  "world0 = module_init (Some ''p'') (Some ''t'') 0"

definition event_of :: "pyval \<Rightarrow> cloud_event" where
  "event_of d = \<lparr>attributes = [(''type'', ''google.cloud.storage.object.v1.finalized'')], data = d\<rparr>"

section \<open>Effects of the handler's steps\<close>

lemma print_fields:
  "stdout (print l w) = stdout w @ [l]"
  "published (print l w) = published w"
  "topic_path (print l w) = topic_path w"
  "PROJECT_ID (print l w) = PROJECT_ID w"
  "PUBSUB_TOPIC_ID (print l w) = PUBSUB_TOPIC_ID w"
  "publisher (print l w) = publisher w"
  by (simp_all add: print_def)

lemma falsy_values:
  "\<not> truthy PNone" "\<not> truthy (PStr [])" "\<not> truthy (PBytes [])" "\<not> truthy (PDict [])"
  "\<not> truthy (PList [])"
  by simp_all

lemma publish_step_result: "fst (publish_step br m w) = Inr ()"
  by (simp add: publish_step_def publisher_publish_def split: sum.splits)

lemma publish_step_published:
  "published (snd (publish_step br m w)) = published w @ [(topic_path w, m)]"
  by (simp add: publish_step_def publisher_publish_def print_fields split: sum.splits)

lemma publish_step_globals:
  "topic_path (snd (publish_step br m w)) = topic_path w"
  "PROJECT_ID (snd (publish_step br m w)) = PROJECT_ID w"
  "PUBSUB_TOPIC_ID (snd (publish_step br m w)) = PUBSUB_TOPIC_ID w"
  "publisher (snd (publish_step br m w)) = publisher w"
  by (simp_all add: publish_step_def publisher_publish_def print_fields split: sum.splits)

lemma extract_and_publish_published:
  "\<exists>calls. published (snd (extract_and_publish br p w)) = published w @ calls \<and> length calls \<le> 1"
  by (cases p)
    (simp_all add: extract_and_publish_def Let_def print_fields publish_step_published
      split: sum.splits)

lemma extract_and_publish_globals:
  "topic_path (snd (extract_and_publish br p w)) = topic_path w"
  "PROJECT_ID (snd (extract_and_publish br p w)) = PROJECT_ID w"
  "PUBSUB_TOPIC_ID (snd (extract_and_publish br p w)) = PUBSUB_TOPIC_ID w"
  "publisher (snd (extract_and_publish br p w)) = publisher w"
  by (cases p; simp add: extract_and_publish_def Let_def print_fields publish_step_globals
      split: sum.splits)+

section \<open>The encoder and the parser\<close>

lemma sequence_all_ok:
  "(\<And>r. r \<in> set rs \<Longrightarrow> \<exists>x. r = Inr x) \<Longrightarrow> \<exists>xs. sequence rs = Inr xs"
proof (induction rs)
  case Nil
  then show ?case by simp
next
  case (Cons r rs)
  then obtain x where "r = Inr x" by (meson list.set_intros(1))
  moreover from Cons obtain xs where "sequence rs = Inr xs" by (meson list.set_intros(2))
  ultimately show ?case by simp
qed

lemma sequence_ok_all:
  "sequence rs = Inr xs \<Longrightarrow> r \<in> set rs \<Longrightarrow> \<exists>x. r = Inr x"
  by (induction rs arbitrary: xs rule: sequence.induct) (auto split: sum.splits)

lemma key_str_ok: "serializable_key k \<Longrightarrow> \<exists>s. key_str k = Inr s"
  by (cases k) simp_all

lemma key_str_ok_iff: "(\<exists>s. key_str k = Inr s) = serializable_key k"
  by (cases k) simp_all

lemma encode_val_serializable: "serializable v \<Longrightarrow> \<exists>s. encode_val v = Inr s"
proof (induction v)
  case (PList xs)
  have "\<exists>ss. sequence (map encode_val xs) = Inr ss"
  proof (rule sequence_all_ok)
    fix r assume "r \<in> set (map encode_val xs)"
    then obtain x where x: "x \<in> set xs" "r = encode_val x" by auto
    with PList.prems have "serializable x" by (simp add: list_all_iff)
    with PList.IH x show "\<exists>s. r = Inr s" by simp
  qed
  then show ?case by auto
next
  case (PDict kvs)
  have "\<exists>ss. sequence (map encode_item (map (map_prod id encode_val) kvs)) = Inr ss"
  proof (rule sequence_all_ok)
    fix r assume "r \<in> set (map encode_item (map (map_prod id encode_val) kvs))"
    then obtain k v where kv: "(k, v) \<in> set kvs" "r = encode_item (k, encode_val v)" by auto
    with PDict.prems have sk: "serializable_key k" and sv: "serializable v"
      by (auto simp: list_all_iff)
    from kv(1) sv PDict.IH [of "(k, v)" v] obtain s where "encode_val v = Inr s" by auto
    moreover from sk obtain ks where "key_str k = Inr ks" using key_str_ok by blast
    ultimately show "\<exists>s. r = Inr s" using kv(2) by (simp add: encode_item_def)
  qed
  then show ?case by auto
qed simp_all

lemma encode_val_only_serializable: "encode_val v = Inr s \<Longrightarrow> serializable v"
proof (induction v arbitrary: s)
  case (PList xs)
  then obtain ss where ss: "sequence (map encode_val xs) = Inr ss" by (auto split: sum.splits)
  have "serializable x" if "x \<in> set xs" for x
  proof -
    from that have "encode_val x \<in> set (map encode_val xs)" by simp
    with ss obtain t where "encode_val x = Inr t" using sequence_ok_all by blast
    with PList.IH that show ?thesis by blast
  qed
  then show ?case by (simp add: list_all_iff)
next
  case (PDict kvs)
  then obtain ss where ss: "sequence (map encode_item (map (map_prod id encode_val) kvs)) = Inr ss"
    by (auto split: sum.splits)
  have "serializable_key k \<and> serializable v" if "(k, v) \<in> set kvs" for k v
  proof -
    from that have "encode_item (k, encode_val v) \<in> set (map encode_item (map (map_prod id encode_val) kvs))"
      by force
    with ss obtain t where t: "encode_item (k, encode_val v) = Inr t" using sequence_ok_all by blast
    then obtain ks vs where "key_str k = Inr ks" "encode_val v = Inr vs"
      by (auto simp: encode_item_def split: sum.splits)
    with PDict.IH [of "(k, v)" v] that key_str_ok_iff [of k] show ?thesis by auto
  qed
  then show ?case by (auto simp: list_all_iff)
qed simp_all

lemma of_char_bound: "(of_char c :: nat) < 256"
proof -
  have "(of_char c :: nat) mod 256 = of_char c" by simp
  then show ?thesis by (metis mod_less_divisor zero_less_numeral)
qed

lemma encode_cps_small: "(\<And>c. c \<in> set cs \<Longrightarrow> c < 2048) \<Longrightarrow> \<exists>bs. encode_cps cs = Some bs"
  by (induction cs) auto

lemma encode_utf8_ascii: "\<exists>bs. encode_utf8 (ascii s) = Inr bs"
proof -
  have "\<exists>bs. encode_cps (ascii s) = Some bs"
  proof (rule encode_cps_small)
    fix c assume "c \<in> set (ascii s)"
    then obtain x where "c = of_char x" by (auto simp: ascii_def)
    with of_char_bound [of x] show "c < 2048" by linarith
  qed
  then show ?thesis by (auto simp: encode_utf8_def)
qed

lemma json_dumps_encodes: "json_dumps v = Inr js \<Longrightarrow> \<exists>bs. encode_utf8 js = Inr bs"
  using encode_utf8_ascii by (auto simp: json_dumps_def split: sum.splits)

lemma json_dumps_serializable: "(\<exists>js. json_dumps v = Inr js) = serializable v"
  using encode_val_serializable [of v] encode_val_only_serializable [of v]
  by (auto simp: json_dumps_def split: sum.splits)

lemma message_payload_serializable:
  "serializable (message_payload a b c) = (serializable a \<and> serializable b \<and> serializable c)"
  by (simp add: message_payload_def)



section \<open>Paths of the handler\<close>

lemma publish_step_eq:
  "publish_step br m w =
     (Inr (), w\<lparr>stdout := stdout w @
                  [case br (topic_path w) m of
                     Inl e \<Rightarrow> LogPublishFailed e
                   | Inr fut \<Rightarrow>
                       (case future_result fut of
                          Inl e \<Rightarrow> LogPublishFailed e
                        | Inr message_id \<Rightarrow> LogPublished message_id (PUBSUB_TOPIC_ID w))],
                published := published w @ [(topic_path w, m)]\<rparr>)"
  by (simp add: publish_step_def publisher_publish_def print_def split: sum.splits)

lemma extract_and_publish_dict:
  "extract_and_publish br (PDict kvs) w =
     (let file_name = dict_get kvs (ascii ''name'');
          file_size = dict_get kvs (ascii ''size'');
          content_type = dict_get kvs (ascii ''contentType'');
          w' = w\<lparr>stdout := stdout w @
                  [LogProcessing file_name, LogBucket (dict_get kvs (ascii ''bucket'')),
                   LogSize file_size, LogFormat content_type]\<rparr>
      in case json_dumps (message_payload file_name file_size content_type) of
           Inl e \<Rightarrow> (Inl e, w')
         | Inr js \<Rightarrow>
             (case encode_utf8 js of
                Inl e \<Rightarrow> (Inl e, w')
              | Inr message_data \<Rightarrow> publish_step br message_data w'))"
  by (simp add: extract_and_publish_def Let_def print_def)

lemma extract_and_publish_not_dict:
  "\<not> is_dict p \<Longrightarrow> extract_and_publish br p w = (Inl AttributeError, w)"
  by (cases p) (simp_all add: extract_and_publish_def)

lemma normalize_dict: "normalize fl (PDict kvs) = Inr (PDict kvs)"
  by simp

text \<open>Either no call is made, or the run ends in the publish step with some message.\<close>

lemma process_outcome:
  "published (snd (process_gcs_event fl br ev w)) = published w \<or>
   (\<exists>m lines. process_gcs_event fl br ev w = publish_step br m (w\<lparr>stdout := stdout w @ lines\<rparr>))"
proof (cases "truthy (data ev)")
  case False
  then show ?thesis by (simp add: process_gcs_event_def Let_def print_fields)
next
  case True
  show ?thesis
  proof (cases "normalize fl (data ev)")
    case (Inl e)
    with True show ?thesis by (simp add: process_gcs_event_def Let_def print_fields)
  next
    case (Inr payload)
    show ?thesis
    proof (cases payload)
      case (PDict kvs)
      with True Inr show ?thesis
        by (simp add: process_gcs_event_def Let_def extract_and_publish_dict print_def split: sum.splits)
          blast
    qed (use True Inr in \<open>simp_all add: process_gcs_event_def Let_def extract_and_publish_not_dict print_fields\<close>)
  qed
qed

lemma process_frame:
  "process_gcs_event fl br ev (w\<lparr>stdout := lines, published := calls\<rparr>) =
     (fst (process_gcs_event fl br ev w),
      (snd (process_gcs_event fl br ev w))
        \<lparr>stdout := lines @ drop (length (stdout w)) (stdout (snd (process_gcs_event fl br ev w))),
         published := calls @ drop (length (published w)) (published (snd (process_gcs_event fl br ev w)))\<rparr>)"
proof (cases "truthy (data ev)")
  case False
  then show ?thesis by (simp add: process_gcs_event_def Let_def print_def)
next
  case True
  show ?thesis
  proof (cases "normalize fl (data ev)")
    case (Inl e)
    with True show ?thesis by (simp add: process_gcs_event_def Let_def print_def)
  next
    case (Inr payload)
    show ?thesis
    proof (cases payload)
      case (PDict kvs)
      with True Inr show ?thesis
        by (simp add: process_gcs_event_def Let_def extract_and_publish_dict publish_step_eq print_def split: sum.splits)
    qed (use True Inr in \<open>simp_all add: process_gcs_event_def Let_def extract_and_publish_not_dict print_def\<close>)
  qed
qed

lemma process_globals:
  "PROJECT_ID (snd (process_gcs_event fl br ev w)) = PROJECT_ID w"
  "PUBSUB_TOPIC_ID (snd (process_gcs_event fl br ev w)) = PUBSUB_TOPIC_ID w"
  "publisher (snd (process_gcs_event fl br ev w)) = publisher w"
  "topic_path (snd (process_gcs_event fl br ev w)) = topic_path w"
  by (simp_all add: process_gcs_event_def Let_def print_fields extract_and_publish_globals split: sum.splits)


lemma sequence_error: "sequence rs = Inl e \<Longrightarrow> Inl e \<in> set rs"
  by (induction rs rule: sequence.induct) (auto split: sum.splits)

lemma key_str_error: "key_str k = Inl e \<Longrightarrow> e = TypeError"
  by (cases k) simp_all

lemma encode_val_error: "encode_val v = Inl e \<Longrightarrow> e = TypeError"
proof (induction v)
  case (PList xs)
  then have "sequence (map encode_val xs) = Inl e" by (auto split: sum.splits)
  then have "Inl e \<in> set (map encode_val xs)" by (rule sequence_error)
  then obtain x where "x \<in> set xs" "encode_val x = Inl e" by auto
  with PList.IH show ?case by blast
next
  case (PDict kvs)
  then have "sequence (map encode_item (map (map_prod id encode_val) kvs)) = Inl e"
    by (auto split: sum.splits)
  then have "Inl e \<in> set (map encode_item (map (map_prod id encode_val) kvs))"
    by (rule sequence_error)
  then obtain k v where kv: "(k, v) \<in> set kvs" "encode_item (k, encode_val v) = Inl e" by force
  then have "key_str k = Inl e \<or> encode_val v = Inl e"
    by (auto simp: encode_item_def split: sum.splits)
  with kv(1) PDict.IH [of "(k, v)" v] key_str_error [of k e] show ?case by auto
qed simp_all

lemma json_dumps_not_serializable: "\<not> serializable v \<Longrightarrow> json_dumps v = Inl TypeError"
proof -
  assume "\<not> serializable v"
  with encode_val_only_serializable [of v] obtain e where "encode_val v = Inl e"
    by (cases "encode_val v") auto
  with encode_val_error [of v e] show ?thesis by (simp add: json_dumps_def)
qed

lemma process_dict:
  "kvs \<noteq> [] \<Longrightarrow> data ev = PDict kvs \<Longrightarrow>
   process_gcs_event fl br ev w =
     extract_and_publish br (PDict kvs) (w\<lparr>stdout := stdout w @ [LogReceived (attributes ev)]\<rparr>)"
  by (simp add: process_gcs_event_def Let_def print_def)


lemma dict_get_present: "map_of kvs (KStr k) = Some v \<Longrightarrow> dict_get kvs k = v"
  by (simp add: dict_get_def)



lemma ascii_eq_iff: "(ascii a = ascii b) = (a = b)"
  unfolding ascii_def by (rule inj_map_eq_map) (simp add: inj_def)

lemma process_bytes:
  "b \<noteq> [] \<Longrightarrow> data ev = PBytes b \<Longrightarrow> normalize fl (PBytes b) = Inr p \<Longrightarrow>
   process_gcs_event fl br ev w =
     extract_and_publish br p (w\<lparr>stdout := stdout w @ [LogReceived (attributes ev)]\<rparr>)"
  by (simp add: process_gcs_event_def Let_def print_def)

section \<open>The example payload, step by step\<close>

lemma lex_in: \<open>lex (ascii ''{"name":"a.jpg","bucket":"b","size":"1024","contentType":"image/jpeg"}'') =
  Some [TLBrace, TString (ascii ''name''), TColon, TString (ascii ''a.jpg''), TComma,
        TString (ascii ''bucket''), TColon, TString (ascii ''b''), TComma,
        TString (ascii ''size''), TColon, TString (ascii ''1024''), TComma,
        TString (ascii ''contentType''), TColon, TString (ascii ''image/jpeg''), TRBrace]\<close>
  by code_simp

lemma parse_in: \<open>parse fl [TLBrace, TString (ascii ''name''), TColon, TString (ascii ''a.jpg''), TComma,
        TString (ascii ''bucket''), TColon, TString (ascii ''b''), TComma,
        TString (ascii ''size''), TColon, TString (ascii ''1024''), TComma,
        TString (ascii ''contentType''), TColon, TString (ascii ''image/jpeg''), TRBrace] =
   Some (PDict [(KStr (ascii ''name''), PStr (ascii ''a.jpg'')),
                (KStr (ascii ''bucket''), PStr (ascii ''b'')),
                (KStr (ascii ''size''), PStr (ascii ''1024'')),
                (KStr (ascii ''contentType''), PStr (ascii ''image/jpeg''))])\<close>
  by (simp add: parse_def parse_step_def start_value_def complete_def ascii_eq_iff)

lemma decode_in:
  \<open>decode_utf8 ''{"name":"a.jpg","bucket":"b","size":"1024","contentType":"image/jpeg"}'' =
   Inr (ascii ''{"name":"a.jpg","bucket":"b","size":"1024","contentType":"image/jpeg"}'')\<close>
  by code_simp

lemma no_bom_in:
  \<open>\<not> (ascii ''{"name":"a.jpg","bucket":"b","size":"1024","contentType":"image/jpeg"}'' \<noteq> [] \<and>
      hd (ascii ''{"name":"a.jpg","bucket":"b","size":"1024","contentType":"image/jpeg"}'') = 65279)\<close>
  by code_simp

lemma normalize_in:
  \<open>normalize fl (PBytes ''{"name":"a.jpg","bucket":"b","size":"1024","contentType":"image/jpeg"}'') =
   Inr (PDict [(KStr (ascii ''name''), PStr (ascii ''a.jpg'')),
               (KStr (ascii ''bucket''), PStr (ascii ''b'')),
               (KStr (ascii ''size''), PStr (ascii ''1024'')),
               (KStr (ascii ''contentType''), PStr (ascii ''image/jpeg''))])\<close>
  using no_bom_in by (simp add: decode_in json_loads_def lex_in parse_in)

lemma dumps_out:
  \<open>json_dumps (message_payload (PStr (ascii ''a.jpg'')) (PStr (ascii ''1024'')) (PStr (ascii ''image/jpeg''))) =
   Inr (ascii ''{"fileName": "a.jpg", "fileSize": "1024", "fileFormat": "image/jpeg"}'')\<close>
  by code_simp

lemma encode_out:
  \<open>encode_utf8 (ascii ''{"fileName": "a.jpg", "fileSize": "1024", "fileFormat": "image/jpeg"}'') =
   Inr ''{"fileName": "a.jpg", "fileSize": "1024", "fileFormat": "image/jpeg"}''\<close>
  by code_simp

lemma gets_in:
  \<open>dict_get [(KStr (ascii ''name''), PStr (ascii ''a.jpg'')),
               (KStr (ascii ''bucket''), PStr (ascii ''b'')),
               (KStr (ascii ''size''), PStr (ascii ''1024'')),
               (KStr (ascii ''contentType''), PStr (ascii ''image/jpeg''))] (ascii ''name'') = PStr (ascii ''a.jpg'')\<close>
  \<open>dict_get [(KStr (ascii ''name''), PStr (ascii ''a.jpg'')),
               (KStr (ascii ''bucket''), PStr (ascii ''b'')),
               (KStr (ascii ''size''), PStr (ascii ''1024'')),
               (KStr (ascii ''contentType''), PStr (ascii ''image/jpeg''))] (ascii ''size'') = PStr (ascii ''1024'')\<close>
  \<open>dict_get [(KStr (ascii ''name''), PStr (ascii ''a.jpg'')),
               (KStr (ascii ''bucket''), PStr (ascii ''b'')),
               (KStr (ascii ''size''), PStr (ascii ''1024'')),
               (KStr (ascii ''contentType''), PStr (ascii ''image/jpeg''))] (ascii ''contentType'') = PStr (ascii ''image/jpeg'')\<close>
  by (simp_all add: dict_get_def ascii_eq_iff)

lemma lex_out:
  \<open>lex (ascii ''{"fileName":"a.jpg","fileSize":"1024","fileFormat":"image/jpeg"}'') =
   Some [TLBrace, TString (ascii ''fileName''), TColon, TString (ascii ''a.jpg''), TComma,
         TString (ascii ''fileSize''), TColon, TString (ascii ''1024''), TComma,
         TString (ascii ''fileFormat''), TColon, TString (ascii ''image/jpeg''), TRBrace]\<close>
  by code_simp

lemma lex_body:
  \<open>lex (ascii ''{"fileName": "a.jpg", "fileSize": "1024", "fileFormat": "image/jpeg"}'') =
   Some [TLBrace, TString (ascii ''fileName''), TColon, TString (ascii ''a.jpg''), TComma,
         TString (ascii ''fileSize''), TColon, TString (ascii ''1024''), TComma,
         TString (ascii ''fileFormat''), TColon, TString (ascii ''image/jpeg''), TRBrace]\<close>
  by code_simp

lemma parse_out:
  \<open>parse fl [TLBrace, TString (ascii ''fileName''), TColon, TString (ascii ''a.jpg''), TComma,
         TString (ascii ''fileSize''), TColon, TString (ascii ''1024''), TComma,
         TString (ascii ''fileFormat''), TColon, TString (ascii ''image/jpeg''), TRBrace] =
   Some (PDict [(KStr (ascii ''fileName''), PStr (ascii ''a.jpg'')),
                (KStr (ascii ''fileSize''), PStr (ascii ''1024'')),
                (KStr (ascii ''fileFormat''), PStr (ascii ''image/jpeg''))])\<close>
  by (simp add: parse_def parse_step_def start_value_def complete_def ascii_eq_iff)

lemma decode_body:
  \<open>decode_utf8 ''{"fileName": "a.jpg", "fileSize": "1024", "fileFormat": "image/jpeg"}'' =
   Inr (ascii ''{"fileName": "a.jpg", "fileSize": "1024", "fileFormat": "image/jpeg"}'')\<close>
  by code_simp

lemma no_bom_out:
  \<open>\<not> (ascii ''{"fileName": "a.jpg", "fileSize": "1024", "fileFormat": "image/jpeg"}'' \<noteq> [] \<and>
      hd (ascii ''{"fileName": "a.jpg", "fileSize": "1024", "fileFormat": "image/jpeg"}'') = 65279)\<close>
  \<open>\<not> (ascii ''{"fileName":"a.jpg","fileSize":"1024","fileFormat":"image/jpeg"}'' \<noteq> [] \<and>
      hd (ascii ''{"fileName":"a.jpg","fileSize":"1024","fileFormat":"image/jpeg"}'') = 65279)\<close>
  by code_simp+

section \<open>Missing payload\<close>

text \<open>
  Claim C4. When the data payload of the event is absent, null or empty (its truth value
  is false: \<^verbatim>\<open>None\<close>, the empty str, bytes, dict or list), the handler makes no publish
  call and returns normally, after the two log lines of this path.
\<close>

theorem no_data_no_publish:
  "\<not> truthy (data ev) \<Longrightarrow>
     fst (process_gcs_event fl br ev w) = Inr () \<and>
     published (snd (process_gcs_event fl br ev w)) = published w \<and>
     stdout (snd (process_gcs_event fl br ev w)) =
       stdout w @ [LogReceived (attributes ev), LogNoData]"
  by (simp add: process_gcs_event_def Let_def print_fields)

theorem no_data_no_publish_witness:
  "\<not> truthy (data (event_of PNone)) \<and>
   fst (process_gcs_event float_text acking_broker (event_of PNone) world0) = Inr () \<and>
   published (snd (process_gcs_event float_text acking_broker (event_of PNone) world0)) = []"
  using no_data_no_publish [of "event_of PNone" float_text acking_broker world0]
  by (simp add: event_of_def world0_def module_init_def)

section \<open>At most one message\<close>

text \<open>
  Claim C7. On every input and along every branch, an invocation of the handler adds at
  most one call of \<^verbatim>\<open>publisher.publish\<close> to the calls made before it.
\<close>

theorem at_most_one_publish:
  "\<exists>calls. published (snd (process_gcs_event fl br ev w)) = published w @ calls \<and>
     length calls \<le> 1"
proof (cases "truthy (data ev)")
  case False
  then show ?thesis
    by (simp add: process_gcs_event_def Let_def print_fields)
next
  case True
  show ?thesis
  proof (cases "normalize fl (data ev)")
    case (Inl e)
    with True show ?thesis
      by (simp add: process_gcs_event_def Let_def print_fields)
  next
    case (Inr payload)
    with True
      extract_and_publish_published [of br payload "print (LogReceived (attributes ev)) w"]
    show ?thesis
      by (simp add: process_gcs_event_def Let_def print_fields)
  qed
qed

section \<open>Publish failure\<close>

text \<open>
  Claim C5. In every invocation that makes a publish call which fails, because
  \<^verbatim>\<open>publisher.publish\<close> raises or because the wait \<^verbatim>\<open>future.result()\<close> raises, the
  handler returns normally, its last log line reports that failure, and the failed call
  is the only one it makes: there is no second attempt.
\<close>

theorem publish_failure_contained:
  assumes "published (snd (process_gcs_event fl br ev w)) = published w @ (t, m) # rest"
    and "br t m = Inl e \<or> (\<exists>fut. br t m = Inr fut \<and> future_result fut = Inl e)"
  shows "fst (process_gcs_event fl br ev w) = Inr () \<and> rest = [] \<and>
         (\<exists>lines. stdout (snd (process_gcs_event fl br ev w)) = stdout w @ lines @ [LogPublishFailed e])"
proof -
  from assms(1) have "published (snd (process_gcs_event fl br ev w)) \<noteq> published w" by simp
  with process_outcome [of fl br ev w] obtain m' lines
    where run: "process_gcs_event fl br ev w = publish_step br m' (w\<lparr>stdout := stdout w @ lines\<rparr>)"
    by blast
  with assms(1) have tm: "t = topic_path w" "m = m'" "rest = []"
    by (simp_all add: publish_step_eq)
  with assms(2) run show ?thesis
    by (auto simp: publish_step_eq)
qed

theorem publish_failure_contained_witness:
  \<open>published (snd (process_gcs_event float_text timeout_broker
       (event_of (PDict [(KStr (ascii ''bucket''), PStr (ascii ''b''))])) world0)) =
     published world0 @
       (''projects/p/topics/t'', ''{"fileName": null, "fileSize": null, "fileFormat": null}'') # [] \<and>
   (\<exists>fut. timeout_broker ''projects/p/topics/t''
             ''{"fileName": null, "fileSize": null, "fileFormat": null}'' = Inr fut \<and>
          future_result fut = Inl (PublishFailure ''timeout'')) \<and>
   fst (process_gcs_event float_text timeout_broker
       (event_of (PDict [(KStr (ascii ''bucket''), PStr (ascii ''b''))])) world0) = Inr () \<and>
   (\<exists>lines. stdout (snd (process_gcs_event float_text timeout_broker
       (event_of (PDict [(KStr (ascii ''bucket''), PStr (ascii ''b''))])) world0)) =
     stdout world0 @ lines @ [LogPublishFailed (PublishFailure ''timeout'')])\<close>
proof -
  have h1: \<open>published (snd (process_gcs_event float_text timeout_broker
       (event_of (PDict [(KStr (ascii ''bucket''), PStr (ascii ''b''))])) world0)) =
     published world0 @
       (''projects/p/topics/t'', ''{"fileName": null, "fileSize": null, "fileFormat": null}'') # []\<close>
    by code_simp
  have h3: \<open>\<exists>fut. timeout_broker ''projects/p/topics/t''
             ''{"fileName": null, "fileSize": null, "fileFormat": null}'' = Inr fut \<and>
          future_result fut = Inl (PublishFailure ''timeout'')\<close>
    by (simp add: timeout_broker_def)
  then have h2: \<open>timeout_broker ''projects/p/topics/t''
       ''{"fileName": null, "fileSize": null, "fileFormat": null}'' =
     Inl (PublishFailure ''timeout'') \<or>
     (\<exists>fut. timeout_broker ''projects/p/topics/t''
       ''{"fileName": null, "fileSize": null, "fileFormat": null}'' = Inr fut \<and>
       future_result fut = Inl (PublishFailure ''timeout''))\<close>
    by (rule disjI2)
  note c = publish_failure_contained [OF h1 h2]
  from c have c1: \<open>fst (process_gcs_event float_text timeout_broker
       (event_of (PDict [(KStr (ascii ''bucket''), PStr (ascii ''b''))])) world0) = Inr ()\<close>
    by (rule conjunct1)
  from c have c2: \<open>\<exists>lines. stdout (snd (process_gcs_event float_text timeout_broker
       (event_of (PDict [(KStr (ascii ''bucket''), PStr (ascii ''b''))])) world0)) =
     stdout world0 @ lines @ [LogPublishFailed (PublishFailure ''timeout'')]\<close>
    by (elim conjE)
  show ?thesis
    by (intro conjI) (rule h1, rule h3, rule c1, rule c2)
qed

section \<open>Failure of the normalization step\<close>



section \<open>The configuration is not changed\<close>

text \<open>
  Claim C8. An invocation leaves \<^verbatim>\<open>PROJECT_ID\<close>, \<^verbatim>\<open>PUBSUB_TOPIC_ID\<close>, the publisher
  client and the topic path as they were, and it keeps no other state: started after any
  other history of log lines and publish calls, it returns the same result and adds the
  same lines and the same calls.
\<close>

theorem configuration_unchanged:
  "PROJECT_ID (snd (process_gcs_event fl br ev w)) = PROJECT_ID w \<and>
   PUBSUB_TOPIC_ID (snd (process_gcs_event fl br ev w)) = PUBSUB_TOPIC_ID w \<and>
   publisher (snd (process_gcs_event fl br ev w)) = publisher w \<and>
   topic_path (snd (process_gcs_event fl br ev w)) = topic_path w \<and>
   (\<forall>lines calls.
      process_gcs_event fl br ev (w\<lparr>stdout := lines, published := calls\<rparr>) =
        (fst (process_gcs_event fl br ev w),
         (snd (process_gcs_event fl br ev w))
           \<lparr>stdout := lines @ drop (length (stdout w)) (stdout (snd (process_gcs_event fl br ev w))),
            published := calls @ drop (length (published w))
                                   (published (snd (process_gcs_event fl br ev w)))\<rparr>))"
  using process_frame [where fl = fl and br = br and ev = ev and w = w] process_globals [of fl br ev w]
  by simp

section \<open>The example payload\<close>

text \<open>
  Claim C2. For the data payload that is the UTF-8 bytes of
  \<^verbatim>\<open>{"name":"a.jpg","bucket":"b","size":"1024","contentType":"image/jpeg"}\<close> the handler
  returns normally and makes exactly one publish call, to the topic path, whose body is
  the bytes \<^verbatim>\<open>{"fileName": "a.jpg", "fileSize": "1024", "fileFormat": "image/jpeg"}\<close>;
  decoded as UTF-8 and parsed as JSON, that body is the same value as the text
  \<^verbatim>\<open>{"fileName":"a.jpg","fileSize":"1024","fileFormat":"image/jpeg"}\<close>, the dict of the
  three fields.
\<close>

theorem example_payload_published:
  \<open>fst (process_gcs_event fl br
      \<lparr>attributes = attrs,
       data = PBytes ''{"name":"a.jpg","bucket":"b","size":"1024","contentType":"image/jpeg"}''\<rparr> w) = Inr () \<and>
   published (snd (process_gcs_event fl br
      \<lparr>attributes = attrs,
       data = PBytes ''{"name":"a.jpg","bucket":"b","size":"1024","contentType":"image/jpeg"}''\<rparr> w)) =
     published w @
       [(topic_path w, ''{"fileName": "a.jpg", "fileSize": "1024", "fileFormat": "image/jpeg"}'')] \<and>
   normalize fl (PBytes ''{"fileName": "a.jpg", "fileSize": "1024", "fileFormat": "image/jpeg"}'') =
     json_loads fl (ascii ''{"fileName":"a.jpg","fileSize":"1024","fileFormat":"image/jpeg"}'') \<and>
   json_loads fl (ascii ''{"fileName":"a.jpg","fileSize":"1024","fileFormat":"image/jpeg"}'') =
     Inr (PDict [(KStr (ascii ''fileName''), PStr (ascii ''a.jpg'')),
                 (KStr (ascii ''fileSize''), PStr (ascii ''1024'')),
                 (KStr (ascii ''fileFormat''), PStr (ascii ''image/jpeg''))])\<close>
proof -
  let ?ev = \<open>\<lparr>attributes = attrs,
       data = PBytes ''{"name":"a.jpg","bucket":"b","size":"1024","contentType":"image/jpeg"}''\<rparr>\<close>
  have run: \<open>process_gcs_event fl br ?ev w =
      publish_step br ''{"fileName": "a.jpg", "fileSize": "1024", "fileFormat": "image/jpeg"}''
        (w\<lparr>stdout := stdout w @ [LogReceived attrs] @
           [LogProcessing (PStr (ascii ''a.jpg'')), LogBucket (PStr (ascii ''b'')),
            LogSize (PStr (ascii ''1024'')), LogFormat (PStr (ascii ''image/jpeg''))]\<rparr>)\<close>
    by (subst process_bytes [OF _ _ normalize_in])
      (simp_all add: extract_and_publish_dict gets_in Let_def dumps_out encode_out dict_get_def ascii_eq_iff)
  have l1: \<open>json_loads fl (ascii ''{"fileName":"a.jpg","fileSize":"1024","fileFormat":"image/jpeg"}'') =
     Inr (PDict [(KStr (ascii ''fileName''), PStr (ascii ''a.jpg'')),
                 (KStr (ascii ''fileSize''), PStr (ascii ''1024'')),
                 (KStr (ascii ''fileFormat''), PStr (ascii ''image/jpeg''))])\<close>
    using no_bom_out(2) by (simp add: json_loads_def lex_out parse_out)
  have l2: \<open>normalize fl (PBytes ''{"fileName": "a.jpg", "fileSize": "1024", "fileFormat": "image/jpeg"}'') =
     Inr (PDict [(KStr (ascii ''fileName''), PStr (ascii ''a.jpg'')),
                 (KStr (ascii ''fileSize''), PStr (ascii ''1024'')),
                 (KStr (ascii ''fileFormat''), PStr (ascii ''image/jpeg''))])\<close>
    using no_bom_out(1) by (simp add: decode_body json_loads_def lex_body parse_out)
  show ?thesis
    by (simp only: run publish_step_eq l1 l2) simp
qed

section \<open>Structured payloads\<close>




section \<open>Serialization is outside the handlers\<close>

text \<open>
  Claim C9. The message is built and serialized outside every \<^verbatim>\<open>try\<close>. For a non-empty
  dict payload one of whose \<^verbatim>\<open>name\<close>, \<^verbatim>\<open>size\<close>, \<^verbatim>\<open>contentType\<close> values is not
  JSON-serializable, \<^verbatim>\<open>json.dumps\<close> raises \<^verbatim>\<open>TypeError\<close>, the exception leaves the
  handler, nothing is published and no failure is logged (the log ends with the four
  lines of the extracted fields). Conversely, when the three extracted values are
  serializable, both \<^verbatim>\<open>json.dumps\<close> and \<^verbatim>\<open>encode('utf-8')\<close> return.
\<close>

theorem unserializable_field_raises:
  "(data ev = PDict kvs \<and> kvs \<noteq> [] \<and>
    \<not> (serializable (dict_get kvs (ascii ''name'')) \<and>
       serializable (dict_get kvs (ascii ''size'')) \<and>
       serializable (dict_get kvs (ascii ''contentType''))) \<longrightarrow>
      process_gcs_event fl br ev w =
        (Inl TypeError,
         w\<lparr>stdout := stdout w @
              [LogReceived (attributes ev),
               LogProcessing (dict_get kvs (ascii ''name'')),
               LogBucket (dict_get kvs (ascii ''bucket'')),
               LogSize (dict_get kvs (ascii ''size'')),
               LogFormat (dict_get kvs (ascii ''contentType''))]\<rparr>)) \<and>
   (serializable file_name \<and> serializable file_size \<and> serializable content_type \<longrightarrow>
      (\<exists>js message_data.
         json_dumps (message_payload file_name file_size content_type) = Inr js \<and>
         encode_utf8 js = Inr message_data))"
proof (intro conjI impI)
  assume a: "data ev = PDict kvs \<and> kvs \<noteq> [] \<and>
    \<not> (serializable (dict_get kvs (ascii ''name'')) \<and>
       serializable (dict_get kvs (ascii ''size'')) \<and>
       serializable (dict_get kvs (ascii ''contentType'')))"
  then have "\<not> serializable (message_payload (dict_get kvs (ascii ''name''))
      (dict_get kvs (ascii ''size'')) (dict_get kvs (ascii ''contentType'')))"
    by (simp add: message_payload_serializable)
  then have "json_dumps (message_payload (dict_get kvs (ascii ''name''))
      (dict_get kvs (ascii ''size'')) (dict_get kvs (ascii ''contentType''))) = Inl TypeError"
    by (rule json_dumps_not_serializable)
  moreover from a have d: "kvs \<noteq> []" "data ev = PDict kvs" by simp_all
  ultimately show "process_gcs_event fl br ev w =
        (Inl TypeError,
         w\<lparr>stdout := stdout w @
              [LogReceived (attributes ev),
               LogProcessing (dict_get kvs (ascii ''name'')),
               LogBucket (dict_get kvs (ascii ''bucket'')),
               LogSize (dict_get kvs (ascii ''size'')),
               LogFormat (dict_get kvs (ascii ''contentType''))]\<rparr>)"
    by (simp add: process_dict [OF d] extract_and_publish_dict Let_def)
next
  assume "serializable file_name \<and> serializable file_size \<and> serializable content_type"
  then have "serializable (message_payload file_name file_size content_type)"
    by (simp add: message_payload_serializable)
  then obtain js where js: "json_dumps (message_payload file_name file_size content_type) = Inr js"
    using json_dumps_serializable by blast
  then obtain b where "encode_utf8 js = Inr b" using json_dumps_encodes by blast
  with js show "\<exists>js message_data.
         json_dumps (message_payload file_name file_size content_type) = Inr js \<and>
         encode_utf8 js = Inr message_data" by blast
qed

theorem unserializable_field_raises_witness:
  \<open>(data (event_of (PDict [(KStr (ascii ''name''), PBytes ''x'')])) =
      PDict [(KStr (ascii ''name''), PBytes ''x'')] \<and>
    [(KStr (ascii ''name''), PBytes ''x'')] \<noteq> [] \<and>
    \<not> (serializable (dict_get [(KStr (ascii ''name''), PBytes ''x'')] (ascii ''name'')) \<and>
       serializable (dict_get [(KStr (ascii ''name''), PBytes ''x'')] (ascii ''size'')) \<and>
       serializable (dict_get [(KStr (ascii ''name''), PBytes ''x'')] (ascii ''contentType'')))) \<and>
   fst (process_gcs_event float_text acking_broker
         (event_of (PDict [(KStr (ascii ''name''), PBytes ''x'')])) world0) = Inl TypeError \<and>
   (serializable (PStr (ascii ''a.jpg'')) \<and> serializable (PStr (ascii ''1024'')) \<and> serializable PNone) \<and>
   (\<exists>js message_data.
      json_dumps (message_payload (PStr (ascii ''a.jpg'')) (PStr (ascii ''1024'')) PNone) = Inr js \<and>
      encode_utf8 js = Inr message_data)\<close>
proof -
  let ?kvs = "[(KStr (ascii ''name''), PBytes ''x'')]"
  let ?ev = "event_of (PDict ?kvs)"
  have h: "data ?ev = PDict ?kvs \<and> ?kvs \<noteq> [] \<and>
    \<not> (serializable (dict_get ?kvs (ascii ''name'')) \<and>
       serializable (dict_get ?kvs (ascii ''size'')) \<and>
       serializable (dict_get ?kvs (ascii ''contentType'')))"
    by (simp add: event_of_def dict_get_def)
  have g: "serializable (PStr (ascii ''a.jpg'')) \<and> serializable (PStr (ascii ''1024'')) \<and> serializable PNone"
    by simp
  note t = unserializable_field_raises [where ev = ?ev and kvs = ?kvs and fl = float_text
      and br = acking_broker and w = world0 and file_name = "PStr (ascii ''a.jpg'')"
      and file_size = "PStr (ascii ''1024'')" and content_type = PNone]
  note i1 = t [THEN conjunct1, THEN mp, OF h]
  note c2 = t [THEN conjunct2, THEN mp, OF g]
  from i1 have c1: "fst (process_gcs_event float_text acking_broker ?ev world0) = Inl TypeError"
    by simp
  show ?thesis
    by (intro conjI) (rule h [THEN conjunct1] h [THEN conjunct2, THEN conjunct1]
        h [THEN conjunct2, THEN conjunct2] c1 g [THEN conjunct1] g [THEN conjunct2, THEN conjunct1]
        g [THEN conjunct2, THEN conjunct2] c2)+
qed

section \<open>What the message depends on\<close>




section \<open>Malformed payloads\<close>




end
